theory Spec2Isabelle
  imports Main
begin

section \<open>Shakedown: the command-line entry point and its pytest plugin\<close>

text \<open>
  The development embeds \<^verbatim>\<open>src/shakedown/cli/main.py\<close>: the authentication chain of
  \<^verbatim>\<open>cli\<close> (lines 86 to 124) and the plugin class \<^verbatim>\<open>shakedown\<close> with its renderer
  \<^verbatim>\<open>output\<close> and its five pytest hooks (lines 126 to 307).

  The module \<^verbatim>\<open>shakedown.cli.helpers\<close> (\<^verbatim>\<open>echo\<close>, \<^verbatim>\<open>fchr\<close>, \<^verbatim>\<open>decorate\<close>) and the
  libraries \<^verbatim>\<open>click\<close>, \<^verbatim>\<open>dcos\<close> and \<^verbatim>\<open>pytest\<close> are outside the file. Their calls are
  kept symbolic: what the program prints is the list of its \<^verbatim>\<open>echo\<close> and
  \<^verbatim>\<open>click.secho\<close> calls with their arguments, in call order, and what the cluster
  client answers is a parameter.
\<close>

subsection \<open>Python values\<close>

text \<open>
  A value passed as \<^verbatim>\<open>text\<close>: \<^verbatim>\<open>None\<close>, a string, or another object (a pytest
  \<^verbatim>\<open>longrepr\<close>) given by its \<^verbatim>\<open>str()\<close>. \<open>truthy\<close> is Python's truth value: \<^verbatim>\<open>None\<close> and
  the empty string are false, an object without \<^verbatim>\<open>__bool__\<close> or \<^verbatim>\<open>__len__\<close> is true.
\<close>

datatype pytext = PyNone | PyStr string | PyObj string

fun truthy :: "pytext \<Rightarrow> bool" where
  "truthy PyNone = False"
| "truthy (PyStr s) = (s \<noteq> [])"
| "truthy (PyObj s) = True"

text \<open>An optional command-line string (\<^verbatim>\<open>None\<close> when the option is not given).\<close>

fun given :: "string option \<Rightarrow> bool" where
  "given None = False"
| "given (Some s) = (s \<noteq> [])"

datatype error = KeyError | UnboundLocalError

subsection \<open>What is printed\<close>

text \<open>
  \<open>Fchr c\<close> is \<^verbatim>\<open>fchr(c)\<close>, the marker glyph. \<open>Block schr title state text\<close> is the
  string \<^verbatim>\<open>o\<close> of lines 180 to 182:
  \<^verbatim>\<open>decorate(schr + ': ', 'quote-head-' + state)
  + click.style(decorate(title, style=state), bold=True) + "\n"
  + decorate(str(text).strip(), style='quote-' + state)\<close>.

  \<open>Echo x d n\<close> is the call \<^verbatim>\<open>echo(x, d=d, n=n)\<close>; \<open>d = None\<close> when the call passes no
  \<^verbatim>\<open>d\<close>, and \<open>n\<close> is \<open>False\<close> exactly when the call passes \<^verbatim>\<open>n=False\<close>.
  \<open>Secho m\<close> is \<^verbatim>\<open>click.secho(m, fg='red', bold=True)\<close>.
\<close>

datatype rendered = Str string | Fchr string | Block rendered string string pytext

datatype printed = Echo rendered "string option" bool | Secho string

subsection \<open>The command-line arguments and the plugin's class attributes\<close>

record args =
  stdout :: "string option"
  stdout_inline :: bool
  oauth_token :: "string option"
  username :: "string option"
  password :: "string option"

text \<open>
  The dictionary stored per node id in \<^verbatim>\<open>tests['test']\<close> only ever receives the keys
  \<^verbatim>\<open>'fail'\<close>, \<^verbatim>\<open>'setup'\<close> and \<^verbatim>\<open>'tested'\<close>, each with the value \<^verbatim>\<open>True\<close>, and is
  only ever asked whether a key is present: the field \<open>has_k\<close> is \<open>True\<close> when the key
  \<^verbatim>\<open>k\<close> is present.
\<close>

record node =
  has_fail :: bool
  has_setup :: bool
  has_tested :: bool

record report_stats =
  passed_list :: "string list"
  skipped_list :: "string list"
  failed_list :: "string list"
  total_passed :: int
  total_skipped :: int
  total_failed :: int

text \<open>
  The class attributes \<^verbatim>\<open>state\<close>, \<^verbatim>\<open>stdout\<close>, \<^verbatim>\<open>tests\<close> and \<^verbatim>\<open>report_stats\<close>, and the
  lines printed so far.
\<close>

record shakedown =
  sd_state :: "string \<rightharpoonup> int"
  sd_stdout :: "rendered list"
  tests_file :: "string \<rightharpoonup> int"
  tests_test :: "string \<rightharpoonup> node"
  sd_report_stats :: report_stats
  printed :: "printed list"

definition node_init :: node where
  "node_init = \<lparr>has_fail = False, has_setup = False, has_tested = False\<rparr>"

definition report_stats_init :: report_stats where
  "report_stats_init =
     \<lparr>passed_list = [], skipped_list = [], failed_list = [],
      total_passed = 0, total_skipped = 0, total_failed = 0\<rparr>"

definition shakedown_init :: shakedown where
  "shakedown_init =
     \<lparr>sd_state = Map.empty, sd_stdout = [], tests_file = Map.empty, tests_test = Map.empty,
      sd_report_stats = report_stats_init, printed = []\<rparr>"

text \<open>
  A hook either returns or raises; the class attributes keep what was done to them
  before the exception.
\<close>

datatype result = Done shakedown | Raised error shakedown

fun state_of :: "result \<Rightarrow> shakedown" where
  "state_of (Done s) = s"
| "state_of (Raised e s) = s"

fun and_then :: "result \<Rightarrow> (shakedown \<Rightarrow> result) \<Rightarrow> result" where
  "and_then (Done s) f = f s"
| "and_then (Raised e s) f = Raised e s"

definition echo :: "rendered \<Rightarrow> string option \<Rightarrow> bool \<Rightarrow> shakedown \<Rightarrow> shakedown" where
  "echo x d n s = s\<lparr>printed := printed s @ [Echo x d n]\<rparr>"

subsection \<open>\<^verbatim>\<open>shakedown.output\<close> (lines 149 to 187)\<close>

text \<open>
  \<^verbatim>\<open>schr\<close> is bound only for the states \<^verbatim>\<open>'fail'\<close> and \<^verbatim>\<open>'pass'\<close>; reading it for another
  state raises \<^verbatim>\<open>UnboundLocalError\<close>.
\<close>

definition schr_of :: "string \<Rightarrow> rendered option" where
  "schr_of state =
     (if state = ''fail'' then Some (Fchr ''FF'')
      else if state = ''pass'' then Some (Fchr ''PP'')
      else None)"

text \<open>Lines 168 to 171 and again 174 to 177: the marker on a line of its own.\<close>

definition echo_marker :: "string \<Rightarrow> shakedown \<Rightarrow> shakedown" where
  "echo_marker state s =
     (if state = ''fail'' then echo (Fchr ''FF'') (Some ''fail'') True s
      else if state = ''pass'' then echo (Fchr ''PP'') (Some ''pass'') True s
      else s)"

text \<open>
  \<open>shakedown_output\<close> is the static method \<^verbatim>\<open>shakedown.output(title, state, text, status)\<close>.
\<close>

definition shakedown_output :: "args \<Rightarrow> string \<Rightarrow> string \<Rightarrow> pytext \<Rightarrow> bool \<Rightarrow> shakedown \<Rightarrow> result" where
  "shakedown_output a title state text status s =
     (let s1 = (if status then
                  (if \<not> stdout_inline a then echo_marker state s
                   else if \<not> truthy text then echo_marker state s
                   else s)
                else s)
      in if truthy text \<and> (stdout a = Some state \<or> stdout a = Some ''all'') then
           (case schr_of state of
              None \<Rightarrow> Raised UnboundLocalError s1
            | Some schr \<Rightarrow>
                (let o' = Block schr title state text
                 in if stdout_inline a then Done (echo o' None True s1)
                    else Done (s1\<lparr>sd_stdout := sd_stdout s1 @ [o']\<rparr>)))
         else Done s1)"

subsection \<open>Reports and node ids\<close>

text \<open>
  The attributes the hooks read from a pytest report. \<open>longrepr\<close> is \<^verbatim>\<open>report.longrepr\<close>;
  \<open>reprcrash\<close> is \<open>Some c\<close> when \<^verbatim>\<open>hasattr(report.longrepr, 'reprcrash')\<close>, with \<open>c\<close> the value
  of \<^verbatim>\<open>str(report.longrepr.reprcrash)\<close>.
\<close>

record report =
  nodeid :: string
  rwhen :: string
  failed :: bool
  passed :: bool
  skipped :: bool
  outcome :: string
  sections :: "(string \<times> string) list"
  longrepr :: pytext
  reprcrash :: "string option"

text \<open>
  \<^verbatim>\<open>x.split('::', 1)\<close> cuts at the leftmost \<^verbatim>\<open>'::'\<close>; \<open>None\<close> when there is none, where
  the list has one element only and unpacking it into two names raises \<^verbatim>\<open>ValueError\<close>.
\<close>

fun split_sep :: "string \<Rightarrow> (string \<times> string) option" where
  "split_sep (c # d # cs) =
     (if c = CHR '':'' \<and> d = CHR '':'' then Some ([], cs)
      else (case split_sep (d # cs) of
              None \<Rightarrow> None
            | Some (x, y) \<Rightarrow> Some (c # x, y)))"
| "split_sep cs = None"

text \<open>\<^verbatim>\<open>report.nodeid.split('::', 1)[0]\<close> and \<^verbatim>\<open>secname.split(' ')[-1]\<close>.\<close>

definition module_of :: "string \<Rightarrow> string" where
  "module_of x = (case split_sep x of None \<Rightarrow> x | Some (m, t) \<Rightarrow> m)"

definition cap_type_of :: "string \<Rightarrow> string" where
  "cap_type_of secname = rev (takeWhile (\<lambda>c. c \<noteq> CHR '' '') (rev secname))"

text \<open>
  The three tests that set \<^verbatim>\<open>state\<close> (lines 203 to 208 and 265 to 270) run in the
  order failed, passed, skipped, each overwriting the one before.
\<close>

definition report_state :: "report \<Rightarrow> string option" where
  "report_state r =
     (if skipped r then Some ''skip''
      else if passed r then Some ''pass''
      else if failed r then Some ''fail''
      else None)"

subsection \<open>The hooks\<close>

text \<open>Lines 194 to 196 and 233 to 235: the section header, once.\<close>

definition header_once :: "string \<Rightarrow> string \<Rightarrow> shakedown \<Rightarrow> shakedown" where
  "header_once key line s =
     (if sd_state s key = None then
        echo (Str line) (Some ''step-min'') True (s\<lparr>sd_state := (sd_state s)(key \<mapsto> 1)\<rparr>)
      else s)"

definition pytest_collectreport :: "args \<Rightarrow> report \<Rightarrow> shakedown \<Rightarrow> result" where
  "pytest_collectreport a r s =
     (let s1 = header_once ''collect'' ''Collecting and validating test files...'' s
      in if nodeid r \<noteq> [] then
           (let s2 = echo (Str (nodeid r)) (Some ''item-maj'') False s1
            in case report_state r of
                 None \<Rightarrow> Done s2
               | Some state \<Rightarrow>
                   if truthy (longrepr r) then shakedown_output a (nodeid r) state (longrepr r) True s2
                   else shakedown_output a (nodeid r) state PyNone True s2)
         else Done s1)"

definition pytest_sessionstart :: "shakedown \<Rightarrow> result" where
  "pytest_sessionstart s = Done (echo (Str ''Initiating testing phase...'') (Some ''step-maj'') True s)"

text \<open>
  \<^verbatim>\<open>pytest_report_teststatus\<close> gives the new class attributes and the returned value:
  \<open>None\<close> for the bare \<^verbatim>\<open>return\<close> of line 231, \<open>Some outcome\<close> for the tuple
  \<^verbatim>\<open>(report.outcome, None, None)\<close> of line 255.
\<close>

text \<open>Lines 237 to 241: the file header, once per file.\<close>

definition file_header :: "args \<Rightarrow> string \<Rightarrow> shakedown \<Rightarrow> shakedown" where
  "file_header a report_file s =
     (if tests_file s report_file = None then
        (let t = s\<lparr>tests_file := (tests_file s)(report_file \<mapsto> 1)\<rparr>;
             t' = (if stdout_inline a then echo (Str []) None True t else t)
         in echo (Str report_file) (Some ''item-maj'') True t')
      else s)"

text \<open>Lines 242 to 246: the node's empty dictionary and its label, once per node id.\<close>

definition register_node :: "args \<Rightarrow> string \<Rightarrow> string \<Rightarrow> shakedown \<Rightarrow> shakedown" where
  "register_node a nid report_test s =
     (if tests_test s nid = None then
        (let t = s\<lparr>tests_test := (tests_test s)(nid \<mapsto> node_init)\<rparr>;
             t' = (if stdout_inline a then echo (Str []) None True t else t)
         in echo (Str report_test) (Some ''item-min'') False t')
      else s)"

text \<open>Lines 248 to 252: the failure flag, and the marker of a teardown.\<close>

definition flag_and_mark :: "args \<Rightarrow> report \<Rightarrow> shakedown \<Rightarrow> result" where
  "flag_and_mark a r s =
     (case tests_test s (nodeid r) of
        None \<Rightarrow> Raised KeyError s
      | Some n \<Rightarrow>
          (let n' = (if failed r then n\<lparr>has_fail := True\<rparr> else n);
               s' = s\<lparr>tests_test := (tests_test s)(nodeid r \<mapsto> n')\<rparr>
           in if rwhen r = ''teardown'' \<and> \<not> has_tested n'
              then shakedown_output a (nodeid r) ''pass'' PyNone True s'
              else Done s'))"

definition teststatus_body :: "args \<Rightarrow> report \<Rightarrow> string \<Rightarrow> string \<Rightarrow> shakedown \<Rightarrow> result" where
  "teststatus_body a r report_file report_test s =
     flag_and_mark a r
       (register_node a (nodeid r) report_test
          (file_header a report_file
             (header_once ''test'' ''Running individual tests...'' s)))"

definition pytest_report_teststatus :: "args \<Rightarrow> report \<Rightarrow> shakedown \<Rightarrow> result \<times> string option" where
  "pytest_report_teststatus a r s =
     (case split_sep (nodeid r) of
        None \<Rightarrow> (Done s, None)
      | Some (report_file, report_test) \<Rightarrow>
          (case teststatus_body a r report_file report_test s of
             Done s' \<Rightarrow> (Done s', Some (outcome r))
           | Raised e s' \<Rightarrow> (Raised e s', None)))"

text \<open>One turn of the loop over \<^verbatim>\<open>report.sections\<close> (lines 265 to 283).\<close>

definition section_step :: "args \<Rightarrow> report \<Rightarrow> string \<Rightarrow> string \<Rightarrow> shakedown \<Rightarrow> result" where
  "section_step a r secname content s =
     (case report_state r of
        None \<Rightarrow> Done s
      | Some state \<Rightarrow>
          if secname \<noteq> ''Captured stdout call'' then
            (case tests_test s (nodeid r) of
               None \<Rightarrow> Raised KeyError s
             | Some n \<Rightarrow>
                 if \<not> has_setup n then
                   shakedown_output a (module_of (nodeid r) @ '' '' @ cap_type_of secname) state
                     (PyStr content) False
                     (s\<lparr>tests_test := (tests_test s)(nodeid r \<mapsto> n\<lparr>has_setup := True\<rparr>)\<rparr>)
                 else Done s)
          else if rwhen r = ''call'' then
            (case tests_test s (nodeid r) of
               None \<Rightarrow> Raised KeyError s
             | Some n \<Rightarrow>
                 if has_tested n then shakedown_output a (nodeid r) state (PyStr content) False s
                 else shakedown_output a (nodeid r) state (PyStr content) True
                        (s\<lparr>tests_test := (tests_test s)(nodeid r \<mapsto> n\<lparr>has_tested := True\<rparr>)\<rparr>))
          else Done s)"

fun sections_loop :: "args \<Rightarrow> report \<Rightarrow> (string \<times> string) list \<Rightarrow> shakedown \<Rightarrow> result" where
  "sections_loop a r [] s = Done s"
| "sections_loop a r ((secname, content) # rest) s =
     and_then (section_step a r secname content s) (sections_loop a r rest)"

text \<open>Lines 286 to 296: the crash carried by the report.\<close>

definition crash_step :: "args \<Rightarrow> report \<Rightarrow> shakedown \<Rightarrow> result" where
  "crash_step a r s =
     (case reprcrash r of
        None \<Rightarrow> Done s
      | Some c \<Rightarrow>
          (case tests_test s (nodeid r) of
             None \<Rightarrow> Raised KeyError s
           | Some n \<Rightarrow>
               if has_tested n then
                 and_then (shakedown_output a (nodeid r) ''fail'' (PyStr (''error: '' @ c)) False s)
                   (\<lambda>s'. Done (if stdout_inline a then echo (Str []) None True s' else s'))
               else shakedown_output a (nodeid r) ''fail'' (PyStr (''error: '' @ c)) True
                      (s\<lparr>tests_test := (tests_test s)(nodeid r \<mapsto> n\<lparr>has_tested := True\<rparr>)\<rparr>)))"

definition pytest_runtest_logreport :: "args \<Rightarrow> report \<Rightarrow> shakedown \<Rightarrow> result" where
  "pytest_runtest_logreport a r s = and_then (sections_loop a r (sections r) s) (crash_step a r)"

text \<open>
  \<^verbatim>\<open>pytest_sessionfinish\<close>: the key \<^verbatim>\<open>'stdout'\<close> is in \<^verbatim>\<open>args\<close> (click puts every option
  there), so the first test is the truth value of \<^verbatim>\<open>args['stdout']\<close>.
\<close>

definition pytest_sessionfinish :: "args \<Rightarrow> shakedown \<Rightarrow> result" where
  "pytest_sessionfinish a s =
     (let s1 = echo (Str ''Test phase completed.'') (Some ''step-maj'') True s
      in if given (stdout a) \<and> sd_stdout s1 \<noteq> []
         then Done (fold (\<lambda>x. echo x None True) (sd_stdout s1) s1)
         else Done s1)"

subsection \<open>The test engine calling the hooks\<close>

datatype event =
    CollectReport report
  | SessionStart
  | TestStatus report
  | LogReport report
  | SessionFinish

fun hook :: "args \<Rightarrow> event \<Rightarrow> shakedown \<Rightarrow> result" where
  "hook a (CollectReport r) s = pytest_collectreport a r s"
| "hook a SessionStart s = pytest_sessionstart s"
| "hook a (TestStatus r) s = fst (pytest_report_teststatus a r s)"
| "hook a (LogReport r) s = pytest_runtest_logreport a r s"
| "hook a SessionFinish s = pytest_sessionfinish a s"

text \<open>The hooks are called one after the other; an exception ends the calls.\<close>

fun run :: "args \<Rightarrow> event list \<Rightarrow> shakedown \<Rightarrow> result" where
  "run a [] s = Done s"
| "run a (e # es) s = and_then (hook a e s) (run a es)"

subsection \<open>The authentication chain of \<^verbatim>\<open>cli\<close> (lines 86 to 124)\<close>

text \<open>
  The cluster client is a parameter: the value of \<^verbatim>\<open>core.dcos_acs_token\<close> in its
  configuration, how \<^verbatim>\<open>shakedown.dcos_leader()\<close> ends, and what the two exchanges
  return (\<open>None\<close> when they raise). The handler of line 96 catches \<^verbatim>\<open>DCOSException\<close>
  only, the handlers of lines 108 and 120 catch everything. \<^verbatim>\<open>config.set_val\<close> is
  taken to return.
\<close>

datatype probe = Probe_ok | Probe_DCOSException | Probe_other_exception

record cluster =
  get_config_val :: "string option"
  dcos_leader :: probe
  authenticate_oauth :: "string \<Rightarrow> string option"
  authenticate :: "string \<Rightarrow> string \<Rightarrow> string option"

datatype call =
    Call_dcos_leader
  | Call_authenticate_oauth string
  | Call_authenticate string string
  | Call_set_val string string

record auth =
  authenticated :: bool
  calls :: "call list"
  out :: "printed list"

text \<open>
  The chain ends by going on to the tests, by \<^verbatim>\<open>sys.exit(n)\<close>, or by an exception that
  nothing catches.
\<close>

datatype auth_result = Continue auth | SysExit nat auth | Uncaught auth

definition auth_failed :: printed where
  "auth_failed = Secho ''error: authentication failed.''"

definition no_credentials :: printed where
  "no_credentials = Secho ''error: no authentication credentials or token found.''"

definition say :: "printed \<Rightarrow> auth \<Rightarrow> auth" where
  "say x st = st\<lparr>out := out st @ [x]\<rparr>"

definition called :: "call \<Rightarrow> auth \<Rightarrow> auth" where
  "called x st = st\<lparr>calls := calls st @ [x]\<rparr>"

text \<open>Lines 88 to 97.\<close>

definition validate_existing :: "cluster \<Rightarrow> auth \<Rightarrow> auth_result" where
  "validate_existing c st =
     (case get_config_val c of
        None \<Rightarrow> Continue st
      | Some token \<Rightarrow>
          (let st1 = called Call_dcos_leader
                       (say (Echo (Str ''Validating existing ACS token...'') (Some ''step-min'') False) st)
           in case dcos_leader c of
                Probe_ok \<Rightarrow> Continue ((say (Echo (Str ''ok'') None True) st1)\<lparr>authenticated := True\<rparr>)
              | Probe_DCOSException \<Rightarrow> Continue (say auth_failed st1)
              | Probe_other_exception \<Rightarrow> Uncaught st1))"

text \<open>Lines 98 to 109.\<close>

definition validate_oauth :: "cluster \<Rightarrow> args \<Rightarrow> auth \<Rightarrow> auth" where
  "validate_oauth c a st =
     (if \<not> authenticated st \<and> given (oauth_token a) then
        (let t = the (oauth_token a);
             st1 = called (Call_authenticate_oauth t)
                     (say (Echo (Str ''Validating OAuth token...'') (Some ''step-min'') False) st)
         in case authenticate_oauth c t of
              None \<Rightarrow> say auth_failed st1
            | Some token \<Rightarrow>
                say (Echo (Str ''ok'') None True)
                  ((called (Call_set_val ''core.dcos_acs_token'' token) st1)\<lparr>authenticated := True\<rparr>))
      else st)"

text \<open>Lines 110 to 121.\<close>

definition validate_password :: "cluster \<Rightarrow> args \<Rightarrow> auth \<Rightarrow> auth" where
  "validate_password c a st =
     (if \<not> authenticated st \<and> given (username a) \<and> given (password a) then
        (let u = the (username a);
             p = the (password a);
             st1 = called (Call_authenticate u p)
                     (say (Echo (Str ''Validating username and password...'') (Some ''step-min'') False) st)
         in case authenticate c u p of
              None \<Rightarrow> say auth_failed st1
            | Some token \<Rightarrow>
                say (Echo (Str ''ok'') None True)
                  ((called (Call_set_val ''core.dcos_acs_token'' token) st1)\<lparr>authenticated := True\<rparr>))
      else st)"

definition cli_authenticate :: "cluster \<Rightarrow> args \<Rightarrow> auth_result" where
  "cli_authenticate c a =
     (let st0 = \<lparr>authenticated = False, calls = [],
                 out = [Echo (Str ''Authenticating with cluster...'') (Some ''step-maj'') True]\<rparr>
      in case validate_existing c st0 of
           Uncaught st \<Rightarrow> Uncaught st
         | SysExit n st \<Rightarrow> SysExit n st
         | Continue st1 \<Rightarrow>
             (let st3 = validate_password c a (validate_oauth c a st1)
              in if \<not> authenticated st3 then SysExit 1 (say no_credentials st3)
                 else Continue st3))"

text \<open>
  The status the process ends with, when it ends here: the argument of \<^verbatim>\<open>sys.exit\<close>,
  and 1 for an exception that reaches the interpreter.
\<close>

fun exit_status :: "auth_result \<Rightarrow> nat option" where
  "exit_status (Continue st) = None"
| "exit_status (SysExit n st) = Some n"
| "exit_status (Uncaught st) = Some 1"

fun auth_of :: "auth_result \<Rightarrow> auth" where
  "auth_of (Continue st) = st"
| "auth_of (SysExit n st) = st"
| "auth_of (Uncaught st) = st"

fun uncaught :: "auth_result \<Rightarrow> bool" where
  "uncaught (Uncaught st) = True"
| "uncaught r = False"

text \<open>
  The credentials the chain has to try: a stored token, an OAuth token, or a username
  together with a password.
\<close>

definition credentials_supplied :: "cluster \<Rightarrow> args \<Rightarrow> bool" where
  "credentials_supplied c a =
     (get_config_val c \<noteq> None \<or> given (oauth_token a) \<or> (given (username a) \<and> given (password a)))"

text \<open>
  The answers of the cluster under which the chain cannot authenticate. Both exchanges
  are refused where they are tried: a given OAuth token is refused, and a given
  username with its password is refused.
\<close>

definition exchanges_refused :: "cluster \<Rightarrow> args \<Rightarrow> bool" where
  "exchanges_refused c a =
     ((if given (oauth_token a) then authenticate_oauth c (the (oauth_token a)) = None else True)
      \<and> (if given (username a) \<and> given (password a)
         then authenticate c (the (username a)) (the (password a)) = None else True))"

text \<open>The probe of a stored token ends in an exception that line 96 does not catch.\<close>

definition probe_crashes :: "cluster \<Rightarrow> bool" where
  "probe_crashes c =
     (case get_config_val c of
        None \<Rightarrow> False
      | Some token \<Rightarrow> dcos_leader c = Probe_other_exception)"

text \<open>
  No strategy succeeds: there is no stored token or its probe fails, and, unless the
  probe's exception ends the program there, both exchanges are refused.
\<close>

definition no_strategy_succeeds :: "cluster \<Rightarrow> args \<Rightarrow> bool" where
  "no_strategy_succeeds c a =
     (case get_config_val c of
        None \<Rightarrow> exchanges_refused c a
      | Some token \<Rightarrow>
          (case dcos_leader c of
             Probe_ok \<Rightarrow> False
           | Probe_DCOSException \<Rightarrow> exchanges_refused c a
           | Probe_other_exception \<Rightarrow> True))"

text \<open>The number of credentials supplied, each of which the chain tries once.\<close>

definition attempts :: "cluster \<Rightarrow> args \<Rightarrow> nat" where
  "attempts c a =
     (if get_config_val c = None then 0 else 1)
     + (if given (oauth_token a) then 1 else 0)
     + (if given (username a) \<and> given (password a) then 1 else 0)"

text \<open>The error lines of a run of the chain: its \<^verbatim>\<open>click.secho\<close> calls, in order.\<close>

fun is_secho :: "printed \<Rightarrow> bool" where
  "is_secho (Secho m) = True"
| "is_secho x = False"

definition errors_printed :: "auth_result \<Rightarrow> printed list" where
  "errors_printed r = filter is_secho (out (auth_of r))"

subsection \<open>Reading the printed lines\<close>

text \<open>A marker is the glyph echoed on a line of its own; a block is the string \<^verbatim>\<open>o\<close>.\<close>

fun is_marker :: "printed \<Rightarrow> bool" where
  "is_marker (Echo (Fchr c) d n) = True"
| "is_marker x = False"

fun is_block :: "printed \<Rightarrow> bool" where
  "is_block (Echo (Block g t st x) d n) = True"
| "is_block x = False"

definition markers :: "shakedown \<Rightarrow> printed list" where
  "markers s = filter is_marker (printed s)"

definition blocks :: "shakedown \<Rightarrow> printed list" where
  "blocks s = filter is_block (printed s)"

fun error_of :: "result \<Rightarrow> error option" where
  "error_of (Done s) = None"
| "error_of (Raised e s) = Some e"

text \<open>
  What a hook call may do to the printed lines and to the buffer \<^verbatim>\<open>shakedown.stdout\<close>,
  from the class attributes \<open>s\<close> before to \<open>s'\<close> after: with \<^verbatim>\<open>stdout_inline\<close> the buffer
  is left as it is; without it no block is printed, and the buffer only gets new
  entries at its end, which needs a filter to be set.
\<close>

definition keeps_blocks :: "args \<Rightarrow> shakedown \<Rightarrow> shakedown \<Rightarrow> bool" where
  "keeps_blocks a s s' =
     (if stdout_inline a then sd_stdout s' = sd_stdout s
      else blocks s' = blocks s
           \<and> (\<exists>ys. sd_stdout s' = sd_stdout s @ ys \<and> (ys = [] \<or> given (stdout a))))"

text \<open>
  What a run of events does to the blocks, from \<open>s\<close> to \<open>s'\<close>: every registered node id
  stays registered, and the blocks \<open>new\<close> are added, inline to the printed lines,
  deferred to the buffer, which the flush prints as \<^verbatim>\<open>echo(output)\<close>.
\<close>

definition settled :: "args \<Rightarrow> shakedown \<Rightarrow> shakedown \<Rightarrow> printed list \<Rightarrow> bool" where
  "settled a s s' new =
     ((\<forall>m. tests_test s m \<noteq> None \<longrightarrow> tests_test s' m \<noteq> None)
      \<and> (if stdout_inline a
         then blocks s' = blocks s @ new \<and> sd_stdout s' = sd_stdout s
         else blocks s' = blocks s
            \<and> map (\<lambda>x. Echo x None True) (sd_stdout s')
                = map (\<lambda>x. Echo x None True) (sd_stdout s) @ new))"

subsection \<open>Inputs of the examples\<close>

definition example_args :: "bool \<Rightarrow> string \<Rightarrow> args" where
  "example_args inline flt =
     \<lparr>stdout = Some flt, stdout_inline = inline,
      oauth_token = None, username = None, password = None\<rparr>"

text \<open>
  The report of one phase of the test \<^verbatim>\<open>t\<close> of the file \<^verbatim>\<open>a\<close>, as pytest builds it:
  the three flags are read off the outcome, nothing was captured, nothing crashed.
\<close>

definition example_report :: "string \<Rightarrow> string \<Rightarrow> string \<Rightarrow> report" where
  "example_report nid w oc =
     \<lparr>nodeid = nid, rwhen = w,
      failed = (oc = ''failed''), passed = (oc = ''passed''), skipped = (oc = ''skipped''),
      outcome = oc, sections = [], longrepr = PyNone, reprcrash = None\<rparr>"

text \<open>
  A test that passes its setup and its call and fails in its teardown. The status
  event of each phase comes before the log event of that phase.
\<close>

definition teardown_failure :: "event list" where
  "teardown_failure =
     [TestStatus (example_report ''a::t'' ''setup'' ''passed''),
      LogReport (example_report ''a::t'' ''setup'' ''passed''),
      TestStatus (example_report ''a::t'' ''call'' ''passed''),
      LogReport (example_report ''a::t'' ''call'' ''passed''),
      TestStatus (example_report ''a::t'' ''teardown'' ''failed''),
      LogReport ((example_report ''a::t'' ''teardown'' ''failed'')
                   \<lparr>longrepr := PyObj ''traceback'', reprcrash := Some ''boom''\<rparr>)]"

text \<open>A test that passes and prints \<^verbatim>\<open>hello\<close> during its call.\<close>

definition passing_with_output :: "event list" where
  "passing_with_output =
     [TestStatus (example_report ''a::t'' ''setup'' ''passed''),
      LogReport (example_report ''a::t'' ''setup'' ''passed''),
      TestStatus (example_report ''a::t'' ''call'' ''passed''),
      LogReport ((example_report ''a::t'' ''call'' ''passed'')
                   \<lparr>sections := [(''Captured stdout call'', ''hello'')]\<rparr>),
      TestStatus (example_report ''a::t'' ''teardown'' ''passed''),
      LogReport (example_report ''a::t'' ''teardown'' ''passed''),
      SessionFinish]"

text \<open>
  A cluster whose configuration holds the token \<open>tok\<close>, whose probe ends as \<open>pr\<close>, and
  whose two exchanges both succeed or both raise; and a command line that gives an
  OAuth token, a username and a password.
\<close>

definition example_cluster :: "string option \<Rightarrow> probe \<Rightarrow> bool \<Rightarrow> cluster" where
  "example_cluster tok pr ok =
     \<lparr>get_config_val = tok, dcos_leader = pr,
      authenticate_oauth = (\<lambda>t. if ok then Some ''session'' else None),
      authenticate = (\<lambda>u p. if ok then Some ''session'' else None)\<rparr>"

definition example_credentials :: args where
  "example_credentials =
     \<lparr>stdout = Some ''fail'', stdout_inline = False,
      oauth_token = Some ''oauth'', username = Some ''user'', password = Some ''secret''\<rparr>"

text \<open>
  The events of one test: setup, call and teardown, each with its status event before
  its log event. The call has the outcome \<open>oc\<close> and captured the text \<open>text\<close> on its
  standard output; \<open>crash\<close> is the crash its report carries, if any.
\<close>

definition node_events :: "string \<Rightarrow> string \<Rightarrow> string \<Rightarrow> string option \<Rightarrow> event list" where
  "node_events nid oc text crash =
     [TestStatus (example_report nid ''setup'' ''passed''),
      LogReport (example_report nid ''setup'' ''passed''),
      TestStatus (example_report nid ''call'' oc),
      LogReport ((example_report nid ''call'' oc)
                   \<lparr>sections := [(''Captured stdout call'', text)],
                    longrepr := (case crash of None \<Rightarrow> PyNone | Some c \<Rightarrow> PyObj c),
                    reprcrash := crash\<rparr>),
      TestStatus (example_report nid ''teardown'' ''passed''),
      LogReport (example_report nid ''teardown'' ''passed'')]"


text \<open>A test that is skipped in its setup, so that its call never runs.\<close>

definition skipped_test :: "event list" where
  "skipped_test =
     [TestStatus (example_report ''a::t'' ''setup'' ''skipped''),
      LogReport ((example_report ''a::t'' ''setup'' ''skipped'')\<lparr>longrepr := PyObj ''reason''\<rparr>),
      TestStatus (example_report ''a::t'' ''teardown'' ''passed''),
      LogReport (example_report ''a::t'' ''teardown'' ''passed'')]"

text \<open>The class attributes when the calls of the events \<open>es\<close> on the fresh plugin are over.\<close>

definition before_finish :: "args \<Rightarrow> event list \<Rightarrow> shakedown" where
  "before_finish a es = state_of (run a es shakedown_init)"

text \<open>A test that prints \<^verbatim>\<open>hello\<close> during its call and fails there.\<close>

definition failing_with_output :: "event list" where
  "failing_with_output =
     [TestStatus (example_report ''a::t'' ''setup'' ''passed''),
      LogReport (example_report ''a::t'' ''setup'' ''passed''),
      TestStatus (example_report ''a::t'' ''call'' ''failed''),
      LogReport ((example_report ''a::t'' ''call'' ''failed'')
                   \<lparr>sections := [(''Captured stdout call'', ''hello'')],
                    longrepr := PyObj ''traceback'', reprcrash := Some ''boom''\<rparr>),
      TestStatus (example_report ''a::t'' ''teardown'' ''passed''),
      LogReport (example_report ''a::t'' ''teardown'' ''passed'')]"

section \<open>Properties\<close>

subsection \<open>What the hooks leave alone: \<^verbatim>\<open>report_stats\<close>\<close>

lemma state_of_and_then:
  "P (state_of x) \<Longrightarrow> (\<And>s. P s \<Longrightarrow> P (state_of (f s))) \<Longrightarrow> P (state_of (and_then x f))"
  by (cases x) auto

lemma stats_echo [simp]: "sd_report_stats (echo x d n s) = sd_report_stats s"
  by (simp add: echo_def)

lemma stats_echo_marker [simp]: "sd_report_stats (echo_marker st s) = sd_report_stats s"
  by (simp add: echo_marker_def)

lemma stats_header_once [simp]: "sd_report_stats (header_once k l s) = sd_report_stats s"
  by (simp add: header_once_def)

lemma stats_file_header [simp]: "sd_report_stats (file_header a f s) = sd_report_stats s"
  by (simp add: file_header_def Let_def)

lemma stats_register_node [simp]: "sd_report_stats (register_node a i t s) = sd_report_stats s"
  by (simp add: register_node_def Let_def)

lemma stats_output [simp]:
  "sd_report_stats (state_of (shakedown_output a t st x b s)) = sd_report_stats s"
  by (simp add: shakedown_output_def Let_def split: option.splits)

lemma stats_flag_and_mark [simp]:
  "sd_report_stats (state_of (flag_and_mark a r s)) = sd_report_stats s"
  by (simp add: flag_and_mark_def Let_def split: option.splits)

lemma stats_collectreport:
  "sd_report_stats (state_of (pytest_collectreport a r s)) = sd_report_stats s"
  by (simp add: pytest_collectreport_def Let_def split: option.splits)

lemma fst_teststatus:
  "fst (pytest_report_teststatus a r s) =
     (case split_sep (nodeid r) of
        None \<Rightarrow> Done s
      | Some (f, t) \<Rightarrow> teststatus_body a r f t s)"
proof (cases "split_sep (nodeid r)")
  case None
  then show ?thesis by (simp add: pytest_report_teststatus_def)
next
  case (Some p)
  obtain f t where p: "p = (f, t)" by (cases p)
  show ?thesis
    by (cases "teststatus_body a r f t s") (simp_all add: pytest_report_teststatus_def Some p)
qed

lemma stats_teststatus:
  "sd_report_stats (state_of (fst (pytest_report_teststatus a r s))) = sd_report_stats s"
  by (simp add: fst_teststatus teststatus_body_def split: option.splits)

lemma stats_section_step [simp]:
  "sd_report_stats (state_of (section_step a r sec c s)) = sd_report_stats s"
  by (simp add: section_step_def split: option.splits)

lemma stats_sections_loop:
  "sd_report_stats (state_of (sections_loop a r xs s)) = sd_report_stats s"
proof (induction xs arbitrary: s)
  case Nil
  show ?case by simp
next
  case (Cons x xs)
  obtain sec c where x: "x = (sec, c)" by (cases x)
  show ?case unfolding x sections_loop.simps
    by (rule state_of_and_then [where P = "\<lambda>t. sd_report_stats t = sd_report_stats s"])
       (simp_all add: Cons.IH)
qed

lemma stats_crash_step:
  "sd_report_stats (state_of (crash_step a r s)) = sd_report_stats s"
proof (cases "reprcrash r")
  case None
  then show ?thesis by (simp add: crash_step_def)
next
  case (Some c)
  show ?thesis
  proof (cases "tests_test s (nodeid r)")
    case None
    with Some show ?thesis by (simp add: crash_step_def)
  next
    case (Some n)
    have "sd_report_stats (state_of (and_then (shakedown_output a (nodeid r) ''fail'' (PyStr (''error: '' @ c)) False s)
                   (\<lambda>s'. Done (if stdout_inline a then echo (Str []) None True s' else s')))) = sd_report_stats s"
      by (rule state_of_and_then [where P = "\<lambda>t. sd_report_stats t = sd_report_stats s"]) simp_all
    with Some \<open>reprcrash r = Some c\<close> show ?thesis by (simp add: crash_step_def)
  qed
qed

lemma stats_logreport:
  "sd_report_stats (state_of (pytest_runtest_logreport a r s)) = sd_report_stats s"
  unfolding pytest_runtest_logreport_def
  by (rule state_of_and_then [where P = "\<lambda>t. sd_report_stats t = sd_report_stats s"])
     (simp_all add: stats_sections_loop stats_crash_step)

lemma stats_fold_echo: "sd_report_stats (fold (\<lambda>x. echo x None True) xs s) = sd_report_stats s"
  by (induction xs arbitrary: s) simp_all

lemma stats_sessionfinish:
  "sd_report_stats (state_of (pytest_sessionfinish a s)) = sd_report_stats s"
  by (simp add: pytest_sessionfinish_def Let_def stats_fold_echo)

lemma stats_hook: "sd_report_stats (state_of (hook a e s)) = sd_report_stats s"
  by (cases e)
     (simp_all add: stats_collectreport stats_teststatus stats_logreport stats_sessionfinish
        pytest_sessionstart_def)

lemma stats_run: "sd_report_stats (state_of (run a es s)) = sd_report_stats s"
proof (induction es arbitrary: s)
  case Nil
  show ?case by simp
next
  case (Cons e es)
  show ?case unfolding run.simps
    by (rule state_of_and_then [where P = "\<lambda>t. sd_report_stats t = sd_report_stats s"])
       (simp_all add: stats_hook Cons.IH)
qed

text \<open>
  C10: none of the five hooks writes to \<^verbatim>\<open>report_stats\<close>. Whatever the events and their
  order, and whether the calls end normally or in an exception, the dictionary still
  has the empty lists and the zero counters it was created with, and from any other
  value it would be left as it was.
\<close>

theorem report_stats_never_modified:
  "sd_report_stats (state_of (run a es shakedown_init)) = report_stats_init
   \<and> sd_report_stats (state_of (run a es s)) = sd_report_stats s
   \<and> sd_report_stats (state_of (hook a e s)) = sd_report_stats s"
  by (simp add: stats_run stats_hook shakedown_init_def)

subsection \<open>Markers per node\<close>

text \<open>
  C1 (each node id gets at most one marker): the code does not keep to it. A teardown
  status of a node that is not yet \<^verbatim>\<open>'tested'\<close> prints the pass marker (line 252) and
  does not set \<^verbatim>\<open>'tested'\<close>; the crash of the same teardown, logged next, finds the node
  not \<^verbatim>\<open>'tested'\<close> and prints the fail marker (line 296). With the output deferred, the
  one node \<^verbatim>\<open>a::t\<close> of \<open>teardown_failure\<close> gets both markers, and no hook raises.
\<close>

theorem teardown_failure_two_markers:
  "error_of (run (example_args False ''fail'') teardown_failure shakedown_init) = None
   \<and> markers (state_of (run (example_args False ''fail'') teardown_failure shakedown_init))
       = [Echo (Fchr ''PP'') (Some ''pass'') True, Echo (Fchr ''FF'') (Some ''fail'') True]"
  by code_simp

subsection \<open>Node ids the registry does not know\<close>

text \<open>
  C3 (an event for an unregistered node id registers it and does not fail): the code
  does not keep to it. \<^verbatim>\<open>pytest_report_teststatus\<close> registers an unknown id (line 243),
  \<^verbatim>\<open>pytest_runtest_logreport\<close> reads \<^verbatim>\<open>shakedown.tests['test'][report.nodeid]\<close> without
  doing so: for the report of a passed call with captured output, on the fresh
  plugin, it raises \<^verbatim>\<open>KeyError\<close>.
\<close>

theorem logreport_unregistered_node_raises:
  "error_of (pytest_runtest_logreport (example_args False ''fail'')
      ((example_report ''a::t'' ''call'' ''passed'')
         \<lparr>sections := [(''Captured stdout call'', ''hello'')]\<rparr>)
      shakedown_init) = Some KeyError"
  by code_simp

subsection \<open>The marker and the content filter\<close>

text \<open>
  C4 (with \<^verbatim>\<open>status\<close> set, the marker of a pass or fail is printed whatever the filter
  and the text): the code does not keep to it. Inline, the marker is echoed on its own
  only when there is no text (line 173); with a text it is left to the head of the
  block, and the block is not made when the filter rejects the state. With
  \<^verbatim>\<open>--stdout-inline\<close> and the filter \<^verbatim>\<open>fail\<close>, the test of \<open>passing_with_output\<close> gets no
  marker and no block, where the deferred run of the same events prints its marker;
  the single call of \<^verbatim>\<open>output\<close> prints nothing at all.
\<close>

theorem inline_filtered_text_no_marker:
  "error_of (run (example_args True ''fail'') passing_with_output shakedown_init) = None
   \<and> markers (state_of (run (example_args True ''fail'') passing_with_output shakedown_init)) = []
   \<and> blocks (state_of (run (example_args True ''fail'') passing_with_output shakedown_init)) = []
   \<and> markers (state_of (run (example_args False ''fail'') passing_with_output shakedown_init))
       = [Echo (Fchr ''PP'') (Some ''pass'') True]
   \<and> printed (state_of (shakedown_output (example_args True ''fail'') ''a::t'' ''pass''
                           (PyStr ''hello'') True shakedown_init)) = []"
  by code_simp

subsection \<open>Rendering a skip\<close>

text \<open>
  C5 (a skipped node gets a labelled status line instead of a marker glyph, and
  rendering a skip, also one with a text under the filter \<^verbatim>\<open>skip\<close> or \<^verbatim>\<open>all\<close>, ends
  without error): the code does not keep to it. \<^verbatim>\<open>skip\<close> is a value of \<^verbatim>\<open>--stdout\<close> and
  the hooks pass the state \<^verbatim>\<open>'skip'\<close> to \<^verbatim>\<open>output\<close> (lines 207 to 214 and 269 to 283),
  but \<^verbatim>\<open>schr\<close> is bound for \<^verbatim>\<open>'fail'\<close> and \<^verbatim>\<open>'pass'\<close> only, and line 180 reads it: a test
  that prints and is then skipped in its call raises \<^verbatim>\<open>UnboundLocalError\<close> under either
  filter, and so does the collection of a skipped module. A test skipped in its setup
  gets the pass glyph from line 252 when its teardown is reported, and no line that
  says it was skipped.
\<close>

theorem skipped_node_raises_or_gets_pass_marker:
  "error_of (run (example_args False ''skip'') (node_events ''a::t'' ''skipped'' ''hello'' None)
      shakedown_init) = Some UnboundLocalError
   \<and> error_of (run (example_args True ''all'') (node_events ''a::t'' ''skipped'' ''hello'' None)
        shakedown_init) = Some UnboundLocalError
   \<and> error_of (pytest_collectreport (example_args False ''skip'')
        ((example_report ''a.py'' [] ''skipped'')\<lparr>longrepr := PyObj ''reason''\<rparr>)
        shakedown_init) = Some UnboundLocalError
   \<and> error_of (run (example_args False ''fail'') skipped_test shakedown_init) = None
   \<and> printed (state_of (run (example_args False ''fail'') skipped_test shakedown_init))
       = [Echo (Str ''Running individual tests...'') (Some ''step-min'') True,
          Echo (Str ''a'') (Some ''item-maj'') True,
          Echo (Str ''t'') (Some ''item-min'') False,
          Echo (Fchr ''PP'') (Some ''pass'') True]"
  by code_simp

subsection \<open>Status events with a node id that has no separator\<close>

lemma split_sep_Some: "split_sep x = Some (u, v) \<Longrightarrow> x = u @ ''::'' @ v"
proof (induction x arbitrary: u v rule: split_sep.induct)
  case (1 c d cs)
  then show ?case by (auto split: if_splits option.splits)
qed simp_all

lemma split_sep_infix: "split_sep (u @ ''::'' @ v) \<noteq> None"
proof (induction u)
  case Nil
  show ?case by simp
next
  case (Cons e u)
  obtain d cs where dc: "u @ ''::'' @ v = d # cs"
    by (cases "u @ ''::'' @ v") auto
  from Cons dc show ?case by (auto split: option.splits)
qed

lemma split_sep_None: "split_sep x = None \<Longrightarrow> x \<noteq> u @ ''::'' @ v"
  using split_sep_infix [of u v] by auto

lemma split_sep_None_iff: "split_sep x = None \<longleftrightarrow> (\<nexists>u v. x = u @ ''::'' @ v)"
proof
  assume "split_sep x = None"
  then show "\<nexists>u v. x = u @ ''::'' @ v" using split_sep_None by blast
next
  assume a: "\<nexists>u v. x = u @ ''::'' @ v"
  show "split_sep x = None"
  proof (cases "split_sep x")
    case (Some p)
    then show ?thesis using a split_sep_Some [of x "fst p" "snd p"] by simp
  qed simp
qed

text \<open>
  C9 as it is written fails: for the teardown status of a failed test whose id is
  \<^verbatim>\<open>broken\<close>, the hook prints no label and no marker, sets no flag (the id is not even
  registered) and returns \<^verbatim>\<open>None\<close>.
\<close>

theorem malformed_nodeid_nothing_processed:
  "printed (state_of (fst (pytest_report_teststatus (example_args False ''fail'')
      (example_report ''broken'' ''teardown'' ''failed'') shakedown_init))) = []
   \<and> tests_test (state_of (fst (pytest_report_teststatus (example_args False ''fail'')
        (example_report ''broken'' ''teardown'' ''failed'') shakedown_init))) ''broken'' = None
   \<and> snd (pytest_report_teststatus (example_args False ''fail'')
        (example_report ''broken'' ''teardown'' ''failed'') shakedown_init) = None"
  by code_simp

text \<open>
  C9, amended: a status event whose node id has no \<^verbatim>\<open>::\<close> is skipped as a whole. The
  hook raises nothing and returns \<^verbatim>\<open>None\<close>, and the class attributes and the printed
  lines are what they were: no section header, no file header, no label, no failure
  flag, no marker.
\<close>

theorem malformed_nodeid_skips_event:
  "\<nexists>u v. nodeid r = u @ ''::'' @ v \<Longrightarrow> pytest_report_teststatus a r s = (Done s, None)"
proof -
  assume "\<nexists>u v. nodeid r = u @ ''::'' @ v"
  then have "split_sep (nodeid r) = None" by (rule iffD2 [OF split_sep_None_iff])
  then show ?thesis by (simp add: pytest_report_teststatus_def)
qed

theorem malformed_nodeid_skips_event_witness:
  "(\<nexists>u v. nodeid (example_report ''broken'' ''teardown'' ''failed'') = u @ ''::'' @ v)
   \<and> pytest_report_teststatus (example_args False ''fail'')
        (example_report ''broken'' ''teardown'' ''failed'') shakedown_init
       = (Done shakedown_init, None)"
proof -
  have h: "\<nexists>u v. nodeid (example_report ''broken'' ''teardown'' ''failed'') = u @ ''::'' @ v"
  proof (rule iffD1 [OF split_sep_None_iff])
    show "split_sep (nodeid (example_report ''broken'' ''teardown'' ''failed'')) = None"
      by (simp add: example_report_def)
  qed
  show ?thesis using h malformed_nodeid_skips_event [OF h] by simp
qed

subsection \<open>A stored token that is still valid\<close>

text \<open>
  C6: when the client's configuration holds a token and \<^verbatim>\<open>dcos_leader()\<close> returns, the
  chain is over: the only call made is that probe, so neither exchange is tried and
  no token is written, and the program goes on authenticated.
\<close>

theorem valid_existing_token_stops_chain:
  "get_config_val c = Some t \<Longrightarrow> dcos_leader c = Probe_ok \<Longrightarrow>
   cli_authenticate c a =
     Continue \<lparr>authenticated = True, calls = [Call_dcos_leader],
       out = [Echo (Str ''Authenticating with cluster...'') (Some ''step-maj'') True,
              Echo (Str ''Validating existing ACS token...'') (Some ''step-min'') False,
              Echo (Str ''ok'') None True]\<rparr>"
  by (simp add: cli_authenticate_def validate_existing_def validate_oauth_def
      validate_password_def say_def called_def)

theorem valid_existing_token_stops_chain_witness:
  "get_config_val (example_cluster (Some ''stored'') Probe_ok True) = Some ''stored''
   \<and> dcos_leader (example_cluster (Some ''stored'') Probe_ok True) = Probe_ok
   \<and> calls (auth_of (cli_authenticate (example_cluster (Some ''stored'') Probe_ok True)
                        example_credentials)) = [Call_dcos_leader]
   \<and> exit_status (cli_authenticate (example_cluster (Some ''stored'') Probe_ok True)
                     example_credentials) = None"
proof -
  have t: "get_config_val (example_cluster (Some ''stored'') Probe_ok True) = Some ''stored''"
    by (simp add: example_cluster_def)
  have p: "dcos_leader (example_cluster (Some ''stored'') Probe_ok True) = Probe_ok"
    by (simp add: example_cluster_def)
  show ?thesis
    using t p valid_existing_token_stops_chain [OF t p, of example_credentials] by simp
qed

subsection \<open>No strategy authenticates\<close>

lemma secho_lines [simp]:
  "is_secho auth_failed" "is_secho no_credentials"
  by (simp_all add: auth_failed_def no_credentials_def)

lemma oauth_refused:
  assumes "\<not> authenticated st"
    and "if given (oauth_token a) then authenticate_oauth c (the (oauth_token a)) = None else True"
  shows "\<not> authenticated (validate_oauth c a st)
    \<and> filter is_secho (out (validate_oauth c a st))
        = filter is_secho (out st) @ (if given (oauth_token a) then [auth_failed] else [])"
  using assms by (cases "given (oauth_token a)") (simp_all add: validate_oauth_def say_def called_def)

lemma password_refused:
  assumes "\<not> authenticated st"
    and "if given (username a) \<and> given (password a)
         then authenticate c (the (username a)) (the (password a)) = None else True"
  shows "\<not> authenticated (validate_password c a st)
    \<and> filter is_secho (out (validate_password c a st))
        = filter is_secho (out st)
          @ (if given (username a) \<and> given (password a) then [auth_failed] else [])"
  using assms
  by (cases "given (username a)"; cases "given (password a)")
     (simp_all add: validate_password_def say_def called_def)

lemma exchanges_refused_chain:
  assumes "\<not> authenticated st" and "exchanges_refused c a"
  shows "\<not> authenticated (validate_password c a (validate_oauth c a st))
    \<and> filter is_secho (out (validate_password c a (validate_oauth c a st)))
        = filter is_secho (out st)
          @ (if given (oauth_token a) then [auth_failed] else [])
          @ (if given (username a) \<and> given (password a) then [auth_failed] else [])"
proof -
  from assms(2)
  have o: "if given (oauth_token a) then authenticate_oauth c (the (oauth_token a)) = None else True"
    and p: "if given (username a) \<and> given (password a)
         then authenticate c (the (username a)) (the (password a)) = None else True"
    by (simp_all add: exchanges_refused_def)
  from oauth_refused [OF assms(1) o]
  have 1: "\<not> authenticated (validate_oauth c a st)"
    and 2: "filter is_secho (out (validate_oauth c a st))
        = filter is_secho (out st) @ (if given (oauth_token a) then [auth_failed] else [])"
    by simp_all
  from password_refused [OF 1 p] 2 show ?thesis by simp
qed

lemma exchanges_accepted:
  assumes "\<not> exchanges_refused c a"
  shows "authenticated (validate_password c a (validate_oauth c a st))"
proof (cases "authenticated st")
  case True
  then show ?thesis by (simp add: validate_password_def validate_oauth_def)
next
  case False
  show ?thesis
  proof (cases "given (oauth_token a) \<and> authenticate_oauth c (the (oauth_token a)) \<noteq> None")
    case True
    with False have "authenticated (validate_oauth c a st)"
      by (auto simp add: validate_oauth_def say_def called_def)
    then show ?thesis by (simp add: validate_password_def)
  next
    case o: False
    with assms have p: "given (username a)" "given (password a)"
        "authenticate c (the (username a)) (the (password a)) \<noteq> None"
      by (auto simp add: exchanges_refused_def split: if_splits)
    from o False have "\<not> authenticated (validate_oauth c a st)"
      by (cases "given (oauth_token a)") (auto simp add: validate_oauth_def say_def called_def)
    with p show ?thesis
      by (auto simp add: validate_password_def say_def called_def)
  qed
qed

lemma cli_authenticate_unfold:
  "cli_authenticate c a =
     (case validate_existing c \<lparr>authenticated = False, calls = [],
                 out = [Echo (Str ''Authenticating with cluster...'') (Some ''step-maj'') True]\<rparr> of
           Uncaught st \<Rightarrow> Uncaught st
         | SysExit n st \<Rightarrow> SysExit n st
         | Continue st1 \<Rightarrow>
             if \<not> authenticated (validate_password c a (validate_oauth c a st1))
             then SysExit 1 (say no_credentials (validate_password c a (validate_oauth c a st1)))
             else Continue (validate_password c a (validate_oauth c a st1)))"
  by (simp add: cli_authenticate_def Let_def split: auth_result.splits)

text \<open>
  The condition on the credentials and on the answers of the cluster is exactly the
  condition that the chain ends without \<^verbatim>\<open>authenticated\<close>.
\<close>

lemma authenticated_iff:
  "authenticated (auth_of (cli_authenticate c a)) \<longleftrightarrow> \<not> no_strategy_succeeds c a"
proof (cases "get_config_val c")
  case None
  let ?st0 = "\<lparr>authenticated = False, calls = [],
                 out = [Echo (Str ''Authenticating with cluster...'') (Some ''step-maj'') True]\<rparr>"
  have e: "validate_existing c ?st0 = Continue ?st0"
    using None by (simp add: validate_existing_def)
  show ?thesis
  proof (cases "exchanges_refused c a")
    case True
    from exchanges_refused_chain [OF _ True, of ?st0] e None True show ?thesis
      by (simp add: cli_authenticate_unfold no_strategy_succeeds_def say_def)
  next
    case False
    from exchanges_accepted [OF False, of ?st0] e None False show ?thesis
      by (simp add: cli_authenticate_unfold no_strategy_succeeds_def)
  qed
next
  case (Some tok)
  let ?st0 = "\<lparr>authenticated = False, calls = [],
                 out = [Echo (Str ''Authenticating with cluster...'') (Some ''step-maj'') True]\<rparr>"
  show ?thesis
  proof (cases "dcos_leader c")
    case Probe_ok
    with Some show ?thesis
      by (simp add: cli_authenticate_unfold validate_existing_def validate_oauth_def
          validate_password_def say_def called_def no_strategy_succeeds_def)
  next
    case Probe_DCOSException
    let ?st1 = "say auth_failed (called Call_dcos_leader
           (say (Echo (Str ''Validating existing ACS token...'') (Some ''step-min'') False) ?st0))"
    have e: "validate_existing c ?st0 = Continue ?st1"
      using Some Probe_DCOSException by (simp add: validate_existing_def)
    have n: "\<not> authenticated ?st1" by (simp add: say_def called_def)
    show ?thesis
    proof (cases "exchanges_refused c a")
      case True
      from exchanges_refused_chain [OF n True] e Some Probe_DCOSException True show ?thesis
        by (simp add: cli_authenticate_unfold no_strategy_succeeds_def say_def)
    next
      case False
      from exchanges_accepted [OF False, of ?st1] e Some Probe_DCOSException False show ?thesis
        by (simp add: cli_authenticate_unfold no_strategy_succeeds_def)
    qed
  next
    case Probe_other_exception
    with Some show ?thesis
      by (simp add: cli_authenticate_unfold validate_existing_def no_strategy_succeeds_def
          say_def called_def)
  qed
qed

text \<open>
  C2 as it is written fails. The chain has no report of its own for credentials that
  were supplied and refused. With a stored token as the only credential and a probe
  that raises something other than a \<^verbatim>\<open>DCOSException\<close>, no error line is printed at all
  and the program ends on the exception. With an OAuth token and a username with
  password that are both refused, the line \<^verbatim>\<open>error: no authentication credentials or
  token found.\<close> is printed as well, as it is when nothing was supplied.
\<close>

theorem probe_crash_reports_nothing:
  "credentials_supplied (example_cluster (Some ''stored'') Probe_other_exception False)
      (example_args False ''fail'')
   \<and> no_strategy_succeeds (example_cluster (Some ''stored'') Probe_other_exception False)
      (example_args False ''fail'')
   \<and> errors_printed (cli_authenticate (example_cluster (Some ''stored'') Probe_other_exception False)
      (example_args False ''fail'')) = []
   \<and> uncaught (cli_authenticate (example_cluster (Some ''stored'') Probe_other_exception False)
      (example_args False ''fail''))
   \<and> credentials_supplied (example_cluster None Probe_ok False) example_credentials
   \<and> no_strategy_succeeds (example_cluster None Probe_ok False) example_credentials
   \<and> errors_printed (cli_authenticate (example_cluster None Probe_ok False) example_credentials)
       = [auth_failed, auth_failed, no_credentials]
   \<and> \<not> credentials_supplied (example_cluster None Probe_ok False) (example_args False ''fail'')
   \<and> errors_printed (cli_authenticate (example_cluster None Probe_ok False) (example_args False ''fail''))
       = [no_credentials]"
  by code_simp

text \<open>
  C2, amended: when no strategy succeeds (there is no stored token or its probe fails,
  and every exchange that is tried is refused) the process ends with status 1. If the
  probe of a stored token raises something other than a \<^verbatim>\<open>DCOSException\<close>, the
  exception is not caught and no error line is printed. Otherwise the error lines are
  \<^verbatim>\<open>error: authentication failed.\<close>, once for each credential supplied, followed by
  \<^verbatim>\<open>error: no authentication credentials or token found.\<close>; so the second line stands
  alone exactly when no credential was supplied, and follows the first in the other
  case.
\<close>

theorem unauthenticated_exit_and_report:
  assumes "no_strategy_succeeds c a"
  shows "exit_status (cli_authenticate c a) = Some 1
    \<and> uncaught (cli_authenticate c a) = probe_crashes c
    \<and> errors_printed (cli_authenticate c a)
        = (if probe_crashes c then []
           else replicate (attempts c a) auth_failed @ [no_credentials])
    \<and> (attempts c a = 0 \<longleftrightarrow> \<not> credentials_supplied c a)"
proof (cases "get_config_val c")
  case None
  let ?st0 = "\<lparr>authenticated = False, calls = [],
                 out = [Echo (Str ''Authenticating with cluster...'') (Some ''step-maj'') True]\<rparr>"
  have e: "validate_existing c ?st0 = Continue ?st0"
    using None by (simp add: validate_existing_def)
  from assms None have r: "exchanges_refused c a" by (simp add: no_strategy_succeeds_def)
  from exchanges_refused_chain [OF _ r, of ?st0] e None show ?thesis
    by (simp add: cli_authenticate_unfold say_def errors_printed_def probe_crashes_def
        attempts_def credentials_supplied_def)
next
  case (Some tok)
  let ?st0 = "\<lparr>authenticated = False, calls = [],
                 out = [Echo (Str ''Authenticating with cluster...'') (Some ''step-maj'') True]\<rparr>"
  show ?thesis
  proof (cases "dcos_leader c")
    case Probe_ok
    with Some assms show ?thesis by (simp add: no_strategy_succeeds_def)
  next
    case Probe_DCOSException
    let ?st1 = "say auth_failed (called Call_dcos_leader
           (say (Echo (Str ''Validating existing ACS token...'') (Some ''step-min'') False) ?st0))"
    have e: "validate_existing c ?st0 = Continue ?st1"
      using Some Probe_DCOSException by (simp add: validate_existing_def)
    have n: "\<not> authenticated ?st1" by (simp add: say_def called_def)
    from assms Some Probe_DCOSException have r: "exchanges_refused c a"
      by (simp add: no_strategy_succeeds_def)
    from exchanges_refused_chain [OF n r] e Some Probe_DCOSException show ?thesis
      by (simp add: cli_authenticate_unfold say_def called_def errors_printed_def
          probe_crashes_def attempts_def credentials_supplied_def)
  next
    case Probe_other_exception
    with Some show ?thesis
      by (simp add: cli_authenticate_unfold validate_existing_def errors_printed_def
          probe_crashes_def attempts_def credentials_supplied_def say_def called_def)
  qed
qed

theorem unauthenticated_exit_and_report_witness:
  "no_strategy_succeeds (example_cluster None Probe_ok False) (example_args False ''fail'')
   \<and> exit_status (cli_authenticate (example_cluster None Probe_ok False)
                     (example_args False ''fail'')) = Some 1
   \<and> errors_printed (cli_authenticate (example_cluster None Probe_ok False)
                        (example_args False ''fail'')) = [no_credentials]
   \<and> no_strategy_succeeds (example_cluster (Some ''stored'') Probe_DCOSException False)
        example_credentials
   \<and> exit_status (cli_authenticate (example_cluster (Some ''stored'') Probe_DCOSException False)
                     example_credentials) = Some 1
   \<and> errors_printed (cli_authenticate (example_cluster (Some ''stored'') Probe_DCOSException False)
                        example_credentials)
       = [auth_failed, auth_failed, auth_failed, no_credentials]
   \<and> no_strategy_succeeds (example_cluster (Some ''stored'') Probe_other_exception True)
        example_credentials
   \<and> exit_status (cli_authenticate (example_cluster (Some ''stored'') Probe_other_exception True)
                     example_credentials) = Some 1
   \<and> uncaught (cli_authenticate (example_cluster (Some ''stored'') Probe_other_exception True)
                  example_credentials)"
proof -
  let ?c1 = "example_cluster None Probe_ok False" and ?a1 = "example_args False ''fail''"
  let ?c2 = "example_cluster (Some ''stored'') Probe_DCOSException False"
  let ?c3 = "example_cluster (Some ''stored'') Probe_other_exception True"
  have h1: "no_strategy_succeeds ?c1 ?a1" by code_simp
  have p1: "\<not> probe_crashes ?c1" by code_simp
  have n1: "attempts ?c1 ?a1 = 0" by code_simp
  have h2: "no_strategy_succeeds ?c2 example_credentials" by code_simp
  have p2: "\<not> probe_crashes ?c2" by code_simp
  have n2: "attempts ?c2 example_credentials = Suc (Suc (Suc 0))" by code_simp
  have h3: "no_strategy_succeeds ?c3 example_credentials" by code_simp
  have p3: "probe_crashes ?c3" by code_simp
  from unauthenticated_exit_and_report [OF h1] unauthenticated_exit_and_report [OF h2]
    unauthenticated_exit_and_report [OF h3] h1 p1 n1 h2 p2 n2 h3 p3
  show ?thesis by simp
qed

subsection \<open>Inline and deferred blocks\<close>

lemma fold_echo:
  "fold (\<lambda>x. echo x None True) xs s = s\<lparr>printed := printed s @ map (\<lambda>x. Echo x None True) xs\<rparr>"
  by (induction xs arbitrary: s) (simp_all add: echo_def)

lemma keeps_refl [simp]: "keeps_blocks a s s"
  by (simp add: keeps_blocks_def)

lemma keeps_trans: "keeps_blocks a s t \<Longrightarrow> keeps_blocks a t u \<Longrightarrow> keeps_blocks a s u"
  by (auto simp add: keeps_blocks_def split: if_splits)

lemma keeps_and_then:
  assumes "keeps_blocks a s (state_of x)" and "\<And>t. keeps_blocks a t (state_of (f t))"
  shows "keeps_blocks a s (state_of (and_then x f))"
proof (cases x)
  case (Done t)
  with assms(1) assms(2) [of t] show ?thesis by (auto intro: keeps_trans)
next
  case (Raised e t)
  with assms(1) show ?thesis by simp
qed

lemma keeps_same:
  "sd_stdout t = sd_stdout s \<Longrightarrow> blocks t = blocks s \<Longrightarrow> keeps_blocks a s t"
  by (simp add: keeps_blocks_def)

lemma blocks_echo_str [simp]: "blocks (echo (Str x) d n s) = blocks s"
  by (simp add: echo_def blocks_def)

lemma buffer_echo [simp]: "sd_stdout (echo x d n s) = sd_stdout s"
  by (simp add: echo_def)

lemma keeps_echo_marker [simp]: "keeps_blocks a s (echo_marker st s)"
  by (simp add: keeps_blocks_def echo_marker_def echo_def blocks_def)

lemma keeps_tests [simp]: "keeps_blocks a s (s\<lparr>tests_test := m\<rparr>)"
  by (simp add: keeps_blocks_def blocks_def)

lemma keeps_header_once [simp]: "keeps_blocks a s (header_once k l s)"
  by (rule keeps_same) (simp_all add: header_once_def blocks_def echo_def)

lemma keeps_file_header [simp]: "keeps_blocks a s (file_header a f s)"
  by (rule keeps_same) (simp_all add: file_header_def blocks_def echo_def Let_def)

lemma keeps_register_node [simp]: "keeps_blocks a s (register_node a i t s)"
  by (rule keeps_same) (simp_all add: register_node_def blocks_def echo_def Let_def)

lemma keeps_output: "keeps_blocks a s (state_of (shakedown_output a title st text b s))"
proof (cases "schr_of st")
  case None
  then show ?thesis
    by (simp add: shakedown_output_def keeps_blocks_def echo_marker_def echo_def blocks_def Let_def)
next
  case (Some g)
  then have "st = ''fail'' \<or> st = ''pass''" by (simp add: schr_of_def split: if_splits)
  then have g: "stdout a = Some st \<or> stdout a = Some ''all'' \<Longrightarrow> given (stdout a)" by auto
  show ?thesis
  proof (cases "truthy text \<and> (stdout a = Some st \<or> stdout a = Some ''all'')")
    case True
    with g have "given (stdout a)" by simp
    with True Some show ?thesis
      by (simp add: shakedown_output_def keeps_blocks_def echo_marker_def echo_def blocks_def Let_def)
  next
    case False
    then show ?thesis
      by (auto simp add: shakedown_output_def keeps_blocks_def echo_marker_def echo_def blocks_def Let_def)
  qed
qed

lemma keeps_output_from:
  "keeps_blocks a s t \<Longrightarrow> keeps_blocks a s (state_of (shakedown_output a title st text b t))"
  by (erule keeps_trans) (rule keeps_output)

lemma keeps_flag_and_mark: "keeps_blocks a s (state_of (flag_and_mark a r s))"
  by (simp add: flag_and_mark_def Let_def keeps_output_from split: option.splits)

lemma keeps_teststatus_body: "keeps_blocks a s (state_of (teststatus_body a r f t s))"
proof -
  let ?s1 = "header_once ''test'' ''Running individual tests...'' s"
  let ?s2 = "file_header a f ?s1"
  let ?s3 = "register_node a (nodeid r) t ?s2"
  have "keeps_blocks a s ?s1" by simp
  moreover have "keeps_blocks a ?s1 ?s2" by simp
  moreover have "keeps_blocks a ?s2 ?s3" by simp
  ultimately have "keeps_blocks a s ?s3" by (blast intro: keeps_trans)
  moreover have "keeps_blocks a ?s3 (state_of (flag_and_mark a r ?s3))"
    by (rule keeps_flag_and_mark)
  ultimately show ?thesis unfolding teststatus_body_def by (rule keeps_trans)
qed

lemma keeps_teststatus: "keeps_blocks a s (state_of (fst (pytest_report_teststatus a r s)))"
  by (simp add: fst_teststatus keeps_teststatus_body split: option.splits)

lemma keeps_collectreport: "keeps_blocks a s (state_of (pytest_collectreport a r s))"
proof -
  let ?s1 = "header_once ''collect'' ''Collecting and validating test files...'' s"
  let ?s2 = "echo (Str (nodeid r)) (Some ''item-maj'') False ?s1"
  have "keeps_blocks a s ?s1" by simp
  moreover have "keeps_blocks a ?s1 ?s2" by (rule keeps_same) simp_all
  ultimately have 2: "keeps_blocks a s ?s2" by (rule keeps_trans)
  show ?thesis
    using 2 by (simp add: pytest_collectreport_def Let_def keeps_output_from split: option.splits)
qed

lemma keeps_section_step: "keeps_blocks a s (state_of (section_step a r sec c s))"
  by (simp add: section_step_def keeps_output keeps_output_from split: option.splits)

lemma keeps_sections_loop: "keeps_blocks a s (state_of (sections_loop a r xs s))"
proof (induction xs arbitrary: s)
  case Nil
  show ?case by simp
next
  case (Cons x xs)
  obtain sec c where x: "x = (sec, c)" by (cases x)
  show ?case unfolding x sections_loop.simps
    by (rule keeps_and_then) (rule keeps_section_step, rule Cons.IH)
qed

lemma keeps_crash_step: "keeps_blocks a s (state_of (crash_step a r s))"
proof (cases "reprcrash r")
  case None
  then show ?thesis by (simp add: crash_step_def)
next
  case (Some c)
  note c = Some
  show ?thesis
  proof (cases "tests_test s (nodeid r)")
    case None
    with c show ?thesis by (simp add: crash_step_def)
  next
    case (Some n)
    have "keeps_blocks a s (state_of (and_then
            (shakedown_output a (nodeid r) ''fail'' (PyStr (''error: '' @ c)) False s)
            (\<lambda>s'. Done (if stdout_inline a then echo (Str []) None True s' else s'))))"
      by (rule keeps_and_then) (rule keeps_output, simp add: keeps_same)
    with Some c show ?thesis by (simp add: crash_step_def keeps_output_from)
  qed
qed

lemma keeps_logreport: "keeps_blocks a s (state_of (pytest_runtest_logreport a r s))"
  unfolding pytest_runtest_logreport_def
  by (rule keeps_and_then) (rule keeps_sections_loop, rule keeps_crash_step)

lemma keeps_hook: "e \<noteq> SessionFinish \<Longrightarrow> keeps_blocks a s (state_of (hook a e s))"
  by (cases e)
     (simp_all add: keeps_collectreport keeps_teststatus keeps_logreport pytest_sessionstart_def
        keeps_same)

lemma keeps_run: "SessionFinish \<notin> set es \<Longrightarrow> keeps_blocks a s (state_of (run a es s))"
proof (induction es arbitrary: s)
  case Nil
  show ?case by simp
next
  case (Cons e es)
  then have e: "e \<noteq> SessionFinish" and es: "SessionFinish \<notin> set es" by auto
  show ?case unfolding run.simps
    by (rule keeps_and_then) (rule keeps_hook [OF e], rule Cons.IH [OF es])
qed

lemma run_append: "run a (es @ es') s = and_then (run a es s) (run a es')"
proof (induction es arbitrary: s)
  case Nil
  show ?case by simp
next
  case (Cons e es)
  show ?case by (cases "hook a e s") (simp_all add: Cons.IH)
qed

text \<open>
  C8: take any events that do not contain the end of the session, run on the fresh
  plugin (to their end or to the first exception). Without \<^verbatim>\<open>stdout_inline\<close> no block
  has been printed by then, and \<^verbatim>\<open>pytest_sessionfinish\<close> prints the header
  \<^verbatim>\<open>Test phase completed.\<close> and after it the buffered blocks, in the order of the buffer;
  that order is the order of appending, since further events only add entries at the
  end of the buffer, as \<^verbatim>\<open>output\<close> does. With \<^verbatim>\<open>stdout_inline\<close> the buffer stays
  empty, the end of the session prints the header only, and \<^verbatim>\<open>output\<close> echoes a block
  in the call that makes it.
\<close>

theorem deferred_blocks_flushed_in_order:
  assumes "SessionFinish \<notin> set es" and "SessionFinish \<notin> set es'"
  shows "(if stdout_inline a
          then sd_stdout (before_finish a es) = []
             \<and> pytest_sessionfinish a (before_finish a es)
                 = Done (echo (Str ''Test phase completed.'') (Some ''step-maj'') True
                           (before_finish a es))
          else blocks (before_finish a es) = []
             \<and> pytest_sessionfinish a (before_finish a es)
                 = Done ((before_finish a es)
                     \<lparr>printed := printed (before_finish a es)
                        @ Echo (Str ''Test phase completed.'') (Some ''step-maj'') True
                        # map (\<lambda>x. Echo x None True) (sd_stdout (before_finish a es))\<rparr>))
     \<and> (\<exists>ys. sd_stdout (before_finish a (es @ es')) = sd_stdout (before_finish a es) @ ys)
     \<and> (truthy text \<and> (stdout a = Some st \<or> stdout a = Some ''all'') \<and> schr_of st = Some g \<longrightarrow>
          shakedown_output a title st text b t =
            (if stdout_inline a then Done (echo (Block g title st text) None True t)
             else Done ((if b then echo_marker st t else t)
                          \<lparr>sd_stdout := sd_stdout t @ [Block g title st text]\<rparr>)))"
proof -
  let ?s = "before_finish a es"
  have k: "keeps_blocks a shakedown_init ?s"
    unfolding before_finish_def by (rule keeps_run [OF assms(1)])
  have k': "keeps_blocks a ?s (before_finish a (es @ es'))"
    unfolding before_finish_def run_append
    by (cases "run a es shakedown_init") (simp_all add: keeps_run [OF assms(2)])
  have 3: "\<exists>ys. sd_stdout (before_finish a (es @ es')) = sd_stdout ?s @ ys"
    using k' by (auto simp add: keeps_blocks_def split: if_splits)
  have 4: "truthy text \<and> (stdout a = Some st \<or> stdout a = Some ''all'') \<and> schr_of st = Some g \<longrightarrow>
          shakedown_output a title st text b t =
            (if stdout_inline a then Done (echo (Block g title st text) None True t)
             else Done ((if b then echo_marker st t else t)
                          \<lparr>sd_stdout := sd_stdout t @ [Block g title st text]\<rparr>))"
    by (simp add: shakedown_output_def echo_marker_def echo_def)
  show ?thesis
  proof (cases "stdout_inline a")
    case True
    with k have "sd_stdout ?s = []" by (simp add: keeps_blocks_def shakedown_init_def)
    with True 3 4 show ?thesis by (simp add: pytest_sessionfinish_def)
  next
    case False
    with k have b: "blocks ?s = []" and g: "sd_stdout ?s = [] \<or> given (stdout a)"
      by (auto simp add: keeps_blocks_def shakedown_init_def blocks_def)
    have "pytest_sessionfinish a ?s = Done (?s\<lparr>printed := printed ?s
                        @ Echo (Str ''Test phase completed.'') (Some ''step-maj'') True
                        # map (\<lambda>x. Echo x None True) (sd_stdout ?s)\<rparr>)"
      using g by (auto simp add: pytest_sessionfinish_def Let_def fold_echo echo_def)
    with False b 3 4 show ?thesis by simp
  qed
qed

theorem deferred_blocks_flushed_in_order_witness:
  "SessionFinish \<notin> set failing_with_output
   \<and> blocks (before_finish (example_args False ''fail'') failing_with_output) = []
   \<and> printed (state_of (pytest_sessionfinish (example_args False ''fail'')
                (before_finish (example_args False ''fail'') failing_with_output)))
       = printed (before_finish (example_args False ''fail'') failing_with_output)
         @ [Echo (Str ''Test phase completed.'') (Some ''step-maj'') True,
            Echo (Block (Fchr ''FF'') ''a::t'' ''fail'' (PyStr ''hello'')) None True,
            Echo (Block (Fchr ''FF'') ''a::t'' ''fail'' (PyStr ''error: boom'')) None True]
   \<and> sd_stdout (before_finish (example_args True ''fail'') failing_with_output) = []
   \<and> blocks (before_finish (example_args True ''fail'') failing_with_output)
       = [Echo (Block (Fchr ''FF'') ''a::t'' ''fail'' (PyStr ''hello'')) None True,
          Echo (Block (Fchr ''FF'') ''a::t'' ''fail'' (PyStr ''error: boom'')) None True]"
proof -
  have h: "SessionFinish \<notin> set failing_with_output"
    by (simp add: failing_with_output_def)
  have e: "SessionFinish \<notin> set []" by simp
  have d: "\<not> stdout_inline (example_args False ''fail'')"
    and i: "stdout_inline (example_args True ''fail'')"
    by (simp_all add: example_args_def)
  have b: "sd_stdout (before_finish (example_args False ''fail'') failing_with_output)
      = [Block (Fchr ''FF'') ''a::t'' ''fail'' (PyStr ''hello''),
         Block (Fchr ''FF'') ''a::t'' ''fail'' (PyStr ''error: boom'')]"
    by code_simp
  have p: "blocks (before_finish (example_args True ''fail'') failing_with_output)
       = [Echo (Block (Fchr ''FF'') ''a::t'' ''fail'' (PyStr ''hello'')) None True,
          Echo (Block (Fchr ''FF'') ''a::t'' ''fail'' (PyStr ''error: boom'')) None True]"
    by code_simp
  from deferred_blocks_flushed_in_order [OF h e, of "example_args False ''fail''"]
    deferred_blocks_flushed_in_order [OF h e, of "example_args True ''fail''"]
    h d i b p
  show ?thesis by simp
qed

subsection \<open>The filter \<^verbatim>\<open>fail\<close> on a passing, a failing and a skipped node\<close>

lemma echo_proj [simp]:
  "tests_test (echo x d n s) = tests_test s"
  "blocks (echo (Fchr y) d n s) = blocks s"
  "blocks (echo (Block g t st z) d n s) = blocks s @ [Echo (Block g t st z) d n]"
  by (simp_all add: echo_def blocks_def)

lemma echo_marker_proj [simp]:
  "tests_test (echo_marker st s) = tests_test s"
  "sd_stdout (echo_marker st s) = sd_stdout s"
  "blocks (echo_marker st s) = blocks s"
  by (simp_all add: echo_marker_def)

lemma header_once_proj [simp]:
  "tests_test (header_once k l s) = tests_test s"
  "sd_stdout (header_once k l s) = sd_stdout s"
  "blocks (header_once k l s) = blocks s"
  by (simp_all add: header_once_def blocks_def echo_def)

lemma file_header_proj [simp]:
  "tests_test (file_header a f s) = tests_test s"
  "sd_stdout (file_header a f s) = sd_stdout s"
  "blocks (file_header a f s) = blocks s"
  by (simp_all add: file_header_def blocks_def echo_def Let_def)

lemma register_node_proj [simp]:
  "tests_test (register_node a n t s)
     = (if tests_test s n = None then (tests_test s)(n \<mapsto> node_init) else tests_test s)"
  "sd_stdout (register_node a n t s) = sd_stdout s"
  "blocks (register_node a n t s) = blocks s"
  by (simp_all add: register_node_def blocks_def echo_def Let_def)

lemma tests_upd_proj [simp]:
  "sd_stdout (s\<lparr>tests_test := m\<rparr>) = sd_stdout s"
  "blocks (s\<lparr>tests_test := m\<rparr>) = blocks s"
  "blocks (s\<lparr>sd_stdout := b\<rparr>) = blocks s"
  by (simp_all add: blocks_def)


lemma settled_refl [simp]: "settled a s s []"
  by (simp add: settled_def)






lemma quiet_logreport:
  "sections r = [] \<Longrightarrow> reprcrash r = None \<Longrightarrow> hook a (LogReport r) s = Done s"
  by (simp add: pytest_runtest_logreport_def crash_step_def)


lemma nodeid_example [simp]: "nodeid (example_report nid w oc) = nid"
  by (simp add: example_report_def)

lemma quiet_example [simp]: "hook a (LogReport (example_report nid w oc)) s = Done s"
  by (rule quiet_logreport) (simp_all add: example_report_def)


lemma and_then_run_nil [simp]: "and_then x (run a []) = x"
  by (cases x) simp_all






end
